theory Spec2Isabelle
  imports Main "HOL-Library.Word"
begin

section \<open>Python values, exceptions and the interpreter\<close>

text \<open>
  A Python \<open>str\<close> is a sequence of Unicode code points; \<open>bytes\<close> is a sequence of
  octets. The string literals of \<open>plugin.py\<close> are mostly Chinese, so they are written
  here as lists of code points, each with its transliteration beside it.
\<close>

type_synonym pystr = "nat list"
type_synonym bytes = "string"

definition ascii :: "string \<Rightarrow> pystr" where
  "ascii s = map of_char s"

text \<open>
  The values that cross the RPC boundary are the ones \<open>json.loads\<close> produces and
  \<open>json.dumps\<close> accepts. A float is kept as its IEEE-754 bit pattern: the program
  never computes with one. A dict keeps its insertion order.
\<close>

datatype pyval =
    PNone
  | PBool bool
  | PInt int
  | PFloat "64 word"
  | PStr pystr
  | PList "pyval list"
  | PDict "(pystr \<times> pyval) list"

text \<open>
  Exceptions. Every handler of the program catches by class and then reads \<open>str(e)\<close>
  and the traceback text (\<open>traceback.format_exc()\<close>, \<open>traceback.print_exc()\<close>), so an
  exception is its class, its description and its traceback text. The classes are the
  two the handlers name, and the subclasses of \<open>Exception\<close> the interpreter and the
  library raise in this program; \<open>OtherException\<close> is any other subclass of \<open>Exception\<close>.
\<close>

datatype exn_class =
    JSONDecodeError
  | UnicodeDecodeError
  | ConnectionResetError
  | AttributeError
  | TypeError
  | OtherException

datatype exn = Exn (cls: exn_class) (str_of: pystr) (trace_of: pystr)

text \<open>
  The faults the interpreter itself raises in the code below: an attribute that a value
  does not have (\<open>method.split\<close>, \<open>request.get\<close>, \<open>result.startswith\<close>), a call of
  a value that is not callable, \<open>*params\<close> on a value that is not iterable, a call with
  the wrong number of positional arguments, and \<open>len\<close> of a value without length.
\<close>

datatype interp_fault =
    NoAttribute pyval string
  | NotCallable pyval
  | NotIterable pyval
  | BadArity string nat
  | NoLen pyval

text \<open>
  What the Python runtime and its standard library contribute: the exception object for
  each interpreter fault (its message and traceback depend on the Python version and on
  file paths), \<open>bytes.decode('utf-8')\<close> and \<open>json.loads\<close>. They are not code of
  this repository, so the model takes them as a parameter.
\<close>

record runtime =
  raised :: "interp_fault \<Rightarrow> exn"
  decode_utf8 :: "bytes \<Rightarrow> exn + pystr"
  json_loads :: "pyval \<Rightarrow> exn + pyval"

text \<open>
  A line printed to standard error. The program builds its lines with f-strings; a line
  is the list of its pieces, a literal text or a formatted value (\<open>Fmt v\<close> is the text
  \<open>format(v)\<close> gives), so that Python's \<open>str\<close>/\<open>repr\<close> need not be modelled.
\<close>

datatype frag =
    Lit pystr
  | Fmt pyval
  | FmtBytes bytes
  | FmtAddr pystr nat

type_synonym logline = "frag list"

subsection \<open>Operations on values\<close>

text \<open>\<open>s.startswith(p)\<close> on two strings.\<close>

definition startswith :: "pystr \<Rightarrow> pystr \<Rightarrow> bool" where
  "startswith s p = (take (length p) s = p)"

text \<open>\<open>method.split('.')[-1]\<close>: the text after the last dot (46), the whole text when
  there is none.\<close>

definition split_last :: "pystr \<Rightarrow> pystr" where
  "split_last s = rev (takeWhile (\<lambda>c. c \<noteq> 46) (rev s))"

text \<open>\<open>d.get(key, default)\<close> on the items of a dict.\<close>

definition dict_get :: "(pystr \<times> pyval) list \<Rightarrow> pystr \<Rightarrow> pyval \<Rightarrow> pyval" where
  "dict_get kvs k dflt = (case map_of kvs k of None \<Rightarrow> dflt | Some v \<Rightarrow> v)"

text \<open>Truth value of a value in a condition (\<open>if config_json:\<close>). Both float zeros
  are false.\<close>

fun truthy :: "pyval \<Rightarrow> bool" where
  "truthy PNone = False"
| "truthy (PBool b) = b"
| "truthy (PInt i) = (i \<noteq> 0)"
| "truthy (PFloat w) = (w \<noteq> 0 \<and> w \<noteq> 0x8000000000000000)"
| "truthy (PStr s) = (s \<noteq> [])"
| "truthy (PList xs) = (xs \<noteq> [])"
| "truthy (PDict kvs) = (kvs \<noteq> [])"

text \<open>\<open>*params\<close>: the positional arguments a value unpacks to. A list gives its
  elements, a string its characters, a dict its keys; anything else is not iterable.\<close>

fun unpack :: "runtime \<Rightarrow> pyval \<Rightarrow> exn + pyval list" where
  "unpack rt (PList xs) = Inr xs"
| "unpack rt (PStr s) = Inr (map (\<lambda>c. PStr [c]) s)"
| "unpack rt (PDict kvs) = Inr (map (\<lambda>kv. PStr (fst kv)) kvs)"
| "unpack rt v = Inl (raised rt (NotIterable v))"

text \<open>\<open>len(v)\<close>.\<close>

fun py_len :: "runtime \<Rightarrow> pyval \<Rightarrow> exn + nat" where
  "py_len rt (PList xs) = Inr (length xs)"
| "py_len rt (PStr s) = Inr (length s)"
| "py_len rt (PDict kvs) = Inr (length kvs)"
| "py_len rt v = Inl (raised rt (NoLen v))"

section \<open>The plugin object as the server sees it\<close>

text \<open>
  \<open>SimpleRPCServer\<close> is given a plugin object and touches it only through
  \<open>hasattr\<close>, \<open>getattr\<close> and a call. An attribute is a data value or a bound method;
  a method takes the positional arguments and the object's state and gives what the
  call does: it returns a value or raises, leaves a new state, and prints lines to
  standard error. A plugin maps the object's state and a name to the attribute of that
  name, \<open>None\<close> when \<open>hasattr\<close> is false.
\<close>

datatype outcome = Returns pyval | Raises exn

datatype 's attr =
    Data pyval
  | Method "pyval list \<Rightarrow> 's \<Rightarrow> outcome \<times> 's \<times> logline list"

type_synonym 's plugin = "'s \<Rightarrow> pystr \<Rightarrow> 's attr option"

section \<open>SimpleRPCServer._call_method\<close>

text \<open>The two prefixes tested on a returned string: U+9519 U+8BEF (cuowu, "error")
  and U+5931 U+8D25 (shibai, "failure").\<close>

definition marker_error :: pystr where
  "marker_error = [38169, 35823]"

definition marker_failure :: pystr where
  "marker_failure = [22833, 36133]"

text \<open>"diaoyong fangfa shibai: " (calling the method failed), the prefix of the message
  built in the handler.\<close>

definition msg_call_failed :: pystr where
  "msg_call_failed = [35843, 29992, 26041, 27861, 22833, 36133, 58, 32]"

text \<open>"fangfa " and " bu cunzai": method ... does not exist.\<close>

definition msg_method :: pystr where
  "msg_method = [26041, 27861, 32]"

definition msg_not_exist :: pystr where
  "msg_not_exist = [32, 19981, 23384, 22312]"

text \<open>The server's own \<open>_debug\<close>: \<open>print(f"[RPC] {message}", file=sys.stderr)\<close>.\<close>

definition rpc_debug :: "logline \<Rightarrow> logline" where
  "rpc_debug message = Lit (ascii ''[RPC] '') # message"

text \<open>\<open>method_name = method.split('.')[-1]\<close>; only a string has \<open>split\<close>.\<close>

definition method_name_of :: "runtime \<Rightarrow> pyval \<Rightarrow> exn + pystr" where
  "method_name_of rt method =
     (case method of
        PStr s \<Rightarrow> Inr (split_last s)
      | _ \<Rightarrow> Inl (raised rt (NoAttribute method ''split'')))"

text \<open>\<open>func(*params)\<close>: the arguments are unpacked first, then the attribute is
  called.\<close>

definition invoke ::
  "runtime \<Rightarrow> 's attr \<Rightarrow> pyval \<Rightarrow> 's \<Rightarrow> outcome \<times> 's \<times> logline list" where
  "invoke rt a params s =
     (case unpack rt params of
        Inl e \<Rightarrow> (Raises e, s, [])
      | Inr args \<Rightarrow>
          (case a of
             Data v \<Rightarrow> (Raises (raised rt (NotCallable v)), s, [])
           | Method f \<Rightarrow> f args s))"

text \<open>
  The condition of line 348,
  \<^verbatim>\<open>result is None or (isinstance(result, str) and result.startswith(M1) or result.startswith(M2))\<close>.
  Python's \<open>and\<close> binds tighter than \<open>or\<close>: inside the parentheses the test is
  \<open>(isinstance and startswith M1) or startswith M2\<close>, so for a value that is neither
  \<open>None\<close> nor a string the second \<open>startswith\<close> is evaluated, on a value that has no
  such attribute.
\<close>

definition is_error_return :: "runtime \<Rightarrow> pyval \<Rightarrow> exn + bool" where
  "is_error_return rt result =
     (if result = PNone then Inr True
      else (case result of
              PStr s \<Rightarrow>
                (if startswith s marker_error then Inr True
                 else Inr (startswith s marker_failure))
            | v \<Rightarrow> Inl (raised rt (NoAttribute v ''startswith''))))"

text \<open>The handler \<open>except Exception as e\<close> of \<open>_call_method\<close>: the message holds the
  description, a newline and the traceback; it is printed and returned as the error.\<close>

definition error_msg :: "exn \<Rightarrow> pystr" where
  "error_msg e = msg_call_failed @ str_of e @ [10] @ trace_of e"

definition call_failed ::
  "exn \<Rightarrow> 's \<Rightarrow> logline list \<Rightarrow> (pyval \<times> pyval) \<times> 's \<times> logline list" where
  "call_failed e s out =
     ((PNone, PStr (error_msg e)), s, out @ [rpc_debug [Lit (error_msg e)]])"

text \<open>What follows the call: the returned value is sorted into the pair, a raised
  exception goes to the handler.\<close>

definition after_call ::
  "runtime \<Rightarrow> outcome \<times> 's \<times> logline list \<Rightarrow> (pyval \<times> pyval) \<times> 's \<times> logline list" where
  "after_call rt r =
     (case r of
        (Raises e, s, out) \<Rightarrow> call_failed e s out
      | (Returns result, s, out) \<Rightarrow>
          (case is_error_return rt result of
             Inl e \<Rightarrow> call_failed e s out
           | Inr True \<Rightarrow> ((PNone, result), s, out)
           | Inr False \<Rightarrow> ((result, PNone), s, out)))"

text \<open>\<open>_call_method(method, params)\<close>: the pair \<open>(result, error)\<close>, the plugin's new
  state and the lines printed.\<close>

definition call_method ::
  "runtime \<Rightarrow> 's plugin \<Rightarrow> pyval \<Rightarrow> pyval \<Rightarrow> 's \<Rightarrow> (pyval \<times> pyval) \<times> 's \<times> logline list" where
  "call_method rt plugin method params s =
     (case method_name_of rt method of
        Inl e \<Rightarrow> call_failed e s []
      | Inr method_name \<Rightarrow>
          (case plugin s method_name of
             None \<Rightarrow> ((PNone, PStr (msg_method @ method_name @ msg_not_exist)), s, [])
           | Some func \<Rightarrow> after_call rt (invoke rt func params s)))"

section \<open>NotifyPlugin\<close>

text \<open>The fields \<open>__init__\<close> sets; \<open>config\<close> is the only one a method assigns.\<close>

record notify =
  np_name :: pystr
  np_version :: pystr
  np_plugin_type :: pystr
  np_description :: pystr
  np_config :: pyval

text \<open>\<open>self.description\<close> is "Python tongzhi chajian shili" (sample notification
  plugin).\<close>

definition notify_init :: notify where
  "notify_init =
     \<lparr> np_name = ascii ''python-notify'',
       np_version = ascii ''1.0.0'',
       np_plugin_type = ascii ''notify'',
       np_description = ascii ''Python '' @ [36890, 30693, 25554, 20214, 31034, 20363],
       np_config = PDict [] \<rparr>"

text \<open>\<open>NotifyPlugin._debug\<close>: \<open>print(f"[{self.name}] {message}", file=sys.stderr)\<close>.\<close>

definition np_debug :: "notify \<Rightarrow> logline \<Rightarrow> logline" where
  "np_debug s message = [Lit [91], Lit (np_name s), Lit [93, 32]] @ message"

text \<open>" bei diaoyong" (was called), the tail of the line each operation prints first.\<close>

definition msg_called :: pystr where
  "msg_called = [32, 34987, 35843, 29992]"


text \<open>The four metadata operations take no argument, print one line and return a
  field.\<close>

definition getter ::
  "runtime \<Rightarrow> string \<Rightarrow> (notify \<Rightarrow> pystr) \<Rightarrow> pyval list \<Rightarrow> notify
     \<Rightarrow> outcome \<times> notify \<times> logline list" where
  "getter rt nm field args s =
     (if args \<noteq> [] then (Raises (raised rt (BadArity nm (length args))), s, [])
      else (Returns (PStr (field s)), s,
            [np_debug s [Lit (ascii nm @ ascii ''()'' @ msg_called)]]))"

text \<open>\<open>Init(config_json)\<close>. The lines are "Init() bei diaoyong, peizhi: " (called,
  configuration:), "peizhi jiexi chenggong: " (configuration parsed), "chajian chushihua
  chenggong" (plugin initialised); the two failure texts are "peizhi jiexi shibai: " and
  "chushihua shibai: ". The arguments come from a JSON request, so the \<open>bytes\<close> branch
  is never taken.\<close>

definition msg_init_called :: pystr where
  "msg_init_called = ascii ''Init()'' @ [32, 34987, 35843, 29992, 65292, 37197, 32622, 58, 32]"

definition msg_config_ok :: pystr where
  "msg_config_ok = [37197, 32622, 35299, 26512, 25104, 21151, 58, 32]"

definition msg_init_ok :: pystr where
  "msg_init_ok = [25554, 20214, 21021, 22987, 21270, 25104, 21151]"

definition msg_config_failed :: pystr where
  "msg_config_failed = [37197, 32622, 35299, 26512, 22833, 36133, 58, 32]"

definition msg_init_failed :: pystr where
  "msg_init_failed = [21021, 22987, 21270, 22833, 36133, 58, 32]"

definition Init ::
  "runtime \<Rightarrow> pyval list \<Rightarrow> notify \<Rightarrow> outcome \<times> notify \<times> logline list" where
  "Init rt args s =
     (case args of
        [config_json] \<Rightarrow>
          (let l1 = np_debug s [Lit msg_init_called, Fmt config_json] in
           if truthy config_json then
             (case json_loads rt config_json of
                Inl e \<Rightarrow>
                  (let m = (if cls e = JSONDecodeError then msg_config_failed
                            else msg_init_failed) @ str_of e
                   in (Returns (PStr m), s, [l1, np_debug s [Lit m]]))
              | Inr c \<Rightarrow>
                  (Returns PNone, s\<lparr>np_config := c\<rparr>,
                   [l1, np_debug s [Lit msg_config_ok, Fmt c], np_debug s [Lit msg_init_ok]]))
           else (Returns PNone, s, [l1, np_debug s [Lit msg_init_ok]]))
      | _ \<Rightarrow> (Raises (raised rt (BadArity ''Init'' (length args))), s, []))"

text \<open>\<open>Cleanup()\<close>: "Cleanup() bei diaoyong", "chajian qingli chenggong" (plugin
  cleaned up). Nothing in its \<open>try\<close> block can raise.\<close>

definition msg_cleanup_ok :: pystr where
  "msg_cleanup_ok = [25554, 20214, 28165, 29702, 25104, 21151]"

definition Cleanup ::
  "runtime \<Rightarrow> pyval list \<Rightarrow> notify \<Rightarrow> outcome \<times> notify \<times> logline list" where
  "Cleanup rt args s =
     (if args \<noteq> [] then (Raises (raised rt (BadArity ''Cleanup'' (length args))), s, [])
      else (Returns PNone, s,
            [np_debug s [Lit (ascii ''Cleanup()'' @ msg_called)],
             np_debug s [Lit msg_cleanup_ok]]))"

text \<open>\<open>json.loads(x) if x else default\<close>, the parsing step the three sending
  operations share.\<close>

definition loads_or :: "runtime \<Rightarrow> pyval \<Rightarrow> pyval \<Rightarrow> exn + pyval" where
  "loads_or rt x dflt = (if truthy x then json_loads rt x else Inr dflt)"

text \<open>\<open>Send(message_json, opts_json)\<close>: "fasong xiaoxi: " (sending message), "xiaoxi
  fasong chenggong" (message sent), "fasong xiaoxi shibai: " (sending failed).\<close>

definition msg_send :: pystr where
  "msg_send = [21457, 36865, 28040, 24687, 58, 32]"

definition msg_send_ok :: pystr where
  "msg_send_ok = [28040, 24687, 21457, 36865, 25104, 21151]"

definition msg_send_failed :: pystr where
  "msg_send_failed = [21457, 36865, 28040, 24687, 22833, 36133, 58, 32]"

definition Send ::
  "runtime \<Rightarrow> pyval list \<Rightarrow> notify \<Rightarrow> outcome \<times> notify \<times> logline list" where
  "Send rt args s =
     (case args of
        [message_json, opts_json] \<Rightarrow>
          (let l1 = np_debug s [Lit (ascii ''Send()'' @ msg_called)] in
           case loads_or rt message_json (PStr []) of
             Inl e \<Rightarrow>
               (let m = msg_send_failed @ str_of e
                in (Returns (PStr m), s, [l1, np_debug s [Lit m]]))
           | Inr message \<Rightarrow>
               (Returns PNone, s,
                [l1, np_debug s [Lit msg_send, Fmt message], np_debug s [Lit msg_send_ok]]))
      | _ \<Rightarrow> (Raises (raised rt (BadArity ''Send'' (length args))), s, []))"

text \<open>\<open>SendTemplate(template, data_json, opts_json)\<close>: "fasong moban xiaoxi: moban="
  (sending template message: template=), ", shuju=" (data=), "moban xiaoxi fasong
  chenggong", "fasong moban xiaoxi shibai: ".\<close>

definition msg_template :: pystr where
  "msg_template = [21457, 36865, 27169, 26495, 28040, 24687, 58, 32, 27169, 26495, 61]"

definition msg_template_data :: pystr where
  "msg_template_data = [44, 32, 25968, 25454, 61]"

definition msg_template_ok :: pystr where
  "msg_template_ok = [27169, 26495, 28040, 24687, 21457, 36865, 25104, 21151]"

definition msg_template_failed :: pystr where
  "msg_template_failed = [21457, 36865, 27169, 26495, 28040, 24687, 22833, 36133, 58, 32]"

definition SendTemplate ::
  "runtime \<Rightarrow> pyval list \<Rightarrow> notify \<Rightarrow> outcome \<times> notify \<times> logline list" where
  "SendTemplate rt args s =
     (case args of
        [template, data_json, opts_json] \<Rightarrow>
          (let l1 = np_debug s [Lit (ascii ''SendTemplate()'' @ msg_called)] in
           case loads_or rt data_json (PDict []) of
             Inl e \<Rightarrow>
               (let m = msg_template_failed @ str_of e
                in (Returns (PStr m), s, [l1, np_debug s [Lit m]]))
           | Inr data \<Rightarrow>
               (Returns PNone, s,
                [l1,
                 np_debug s [Lit msg_template, Fmt template, Lit msg_template_data, Fmt data],
                 np_debug s [Lit msg_template_ok]]))
      | _ \<Rightarrow> (Raises (raised rt (BadArity ''SendTemplate'' (length args))), s, []))"

text \<open>\<open>SendBatch(messages_json, opts_json)\<close>: "piliang fasong " n " tiao xiaoxi"
  (sending n messages in a batch), "piliang xiaoxi fasong chenggong", "piliang fasong
  xiaoxi shibai: ". \<open>len(messages)\<close> raises on a parsed value without length, inside
  the \<open>try\<close>.\<close>

definition msg_batch :: pystr where
  "msg_batch = [25209, 37327, 21457, 36865, 32]"

definition msg_batch_count :: pystr where
  "msg_batch_count = [32, 26465, 28040, 24687]"

definition msg_batch_ok :: pystr where
  "msg_batch_ok = [25209, 37327, 28040, 24687, 21457, 36865, 25104, 21151]"

definition msg_batch_failed :: pystr where
  "msg_batch_failed = [25209, 37327, 21457, 36865, 28040, 24687, 22833, 36133, 58, 32]"

definition SendBatch ::
  "runtime \<Rightarrow> pyval list \<Rightarrow> notify \<Rightarrow> outcome \<times> notify \<times> logline list" where
  "SendBatch rt args s =
     (case args of
        [messages_json, opts_json] \<Rightarrow>
          (let l1 = np_debug s [Lit (ascii ''SendBatch()'' @ msg_called)];
               failed = (\<lambda>e. let m = msg_batch_failed @ str_of e
                              in (Returns (PStr m), s, [l1, np_debug s [Lit m]]))
           in case loads_or rt messages_json (PList []) of
                Inl e \<Rightarrow> failed e
              | Inr messages \<Rightarrow>
                  (case py_len rt messages of
                     Inl e \<Rightarrow> failed e
                   | Inr n \<Rightarrow>
                       (Returns PNone, s,
                        [l1,
                         np_debug s [Lit msg_batch, Fmt (PInt (int n)), Lit msg_batch_count],
                         np_debug s [Lit msg_batch_ok]])))
      | _ \<Rightarrow> (Raises (raised rt (BadArity ''SendBatch'' (length args))), s, []))"

text \<open>\<open>_debug(message)\<close> reached as a bound method: one argument, one line, no
  \<open>return\<close> statement.\<close>

definition debug_method ::
  "runtime \<Rightarrow> pyval list \<Rightarrow> notify \<Rightarrow> outcome \<times> notify \<times> logline list" where
  "debug_method rt args s =
     (case args of
        [message] \<Rightarrow> (Returns PNone, s, [np_debug s [Fmt message]])
      | _ \<Rightarrow> (Raises (raised rt (BadArity ''_debug'' (length args))), s, []))"

text \<open>
  The attributes the class body and \<open>__init__\<close> give a \<open>NotifyPlugin\<close>: five data
  fields, the helper and nine operations. The attributes every Python object inherits
  from \<open>object\<close> (\<open>__class__\<close>, \<open>__hash__\<close>, ...) are not in the table: their set and
  their results depend on the Python version, and no statement below is about a name
  with two leading underscores.
\<close>

definition notify_attrs :: "runtime \<Rightarrow> notify \<Rightarrow> (pystr \<times> notify attr) list" where
  "notify_attrs rt s =
     [(ascii ''name'', Data (PStr (np_name s))),
      (ascii ''version'', Data (PStr (np_version s))),
      (ascii ''plugin_type'', Data (PStr (np_plugin_type s))),
      (ascii ''description'', Data (PStr (np_description s))),
      (ascii ''config'', Data (np_config s)),
      (ascii ''_debug'', Method (debug_method rt)),
      (ascii ''Name'', Method (getter rt ''Name'' np_name)),
      (ascii ''Description'', Method (getter rt ''Description'' np_description)),
      (ascii ''Version'', Method (getter rt ''Version'' np_version)),
      (ascii ''Type'', Method (getter rt ''Type'' np_plugin_type)),
      (ascii ''Init'', Method (Init rt)),
      (ascii ''Cleanup'', Method (Cleanup rt)),
      (ascii ''Send'', Method (Send rt)),
      (ascii ''SendTemplate'', Method (SendTemplate rt)),
      (ascii ''SendBatch'', Method (SendBatch rt))]"

definition NotifyPlugin :: "runtime \<Rightarrow> notify plugin" where
  "NotifyPlugin rt s nm = map_of (notify_attrs rt s) nm"

text \<open>The operations the class declares under its two interface headings ("jichu
  jiekou shixian", basic interface; "Notify chajian jiekou shixian", notify plugin
  interface): the capability operations, as opposed to the fields and the helper.\<close>

definition interface_operations :: "pystr list" where
  "interface_operations =
     map ascii [''Name'', ''Description'', ''Version'', ''Type'', ''Init'', ''Cleanup'',
                ''Send'', ''SendTemplate'', ''SendBatch'']"

section \<open>SimpleRPCServer._handle_requests\<close>

text \<open>
  What the process does that the outside can see, in order: lines on standard error and
  standard output, and the calls on its two sockets. \<open>Send v\<close> is \<open>sendall\<close> of the
  bytes \<open>json.dumps(v).encode('utf-8')\<close>.
\<close>

datatype event =
    Stderr logline
  | Stdout pystr
  | Listen
  | Accept
  | Recv bytes
  | Send pyval
  | CloseClient
  | CloseListener

text \<open>
  What the peer and the transport do in one pass of the loop: what \<open>recv(4096)\<close> gives
  (bytes, empty when the peer has closed, or an exception), and the exception
  \<open>sendall\<close> raises if the pass gets that far.
\<close>

datatype recv_result = Received bytes | RecvRaises exn

type_synonym exchange = "recv_result \<times> exn option"

text \<open>The lines of the loop: "lianjie guanbi" (connection closed), "wufa jiexi qingqiu: "
  (cannot parse request), "shoudao qingqiu: method=" (request received), "xiangying yi
  fasong" (response sent), "lianjie bei chongzhi" (connection reset), "chuli qingqiu
  cuowu: " (error handling request).\<close>

definition msg_conn_closed :: pystr where
  "msg_conn_closed = [36830, 25509, 20851, 38381]"

definition msg_cannot_parse :: pystr where
  "msg_cannot_parse = [26080, 27861, 35299, 26512, 35831, 27714, 58, 32]"

definition msg_request :: pystr where
  "msg_request = [25910, 21040, 35831, 27714, 58, 32] @ ascii ''method=''"

definition msg_response_sent :: pystr where
  "msg_response_sent = [21709, 24212, 24050, 21457, 36865]"

definition msg_conn_reset :: pystr where
  "msg_conn_reset = [36830, 25509, 34987, 37325, 32622]"

definition msg_handle_error :: pystr where
  "msg_handle_error = [22788, 29702, 35831, 27714, 38169, 35823, 58, 32]"

text \<open>One pass either goes on to the next \<open>recv\<close> or leaves the loop.\<close>

datatype 's pass = Continue "event list" 's | Break "event list" 's

text \<open>The two outer handlers: \<open>except ConnectionResetError\<close> prints one line,
  \<open>except Exception\<close> prints the description and the traceback; both \<open>break\<close>.\<close>

definition loop_fault :: "exn \<Rightarrow> event list" where
  "loop_fault e =
     (if cls e = ConnectionResetError then [Stderr (rpc_debug [Lit msg_conn_reset])]
      else [Stderr (rpc_debug [Lit msg_handle_error, Lit (str_of e)]),
            Stderr [Lit (trace_of e)]])"

text \<open>The inner \<open>try\<close> around \<open>json.loads(data.decode('utf-8'))\<close>: only a
  \<open>json.JSONDecodeError\<close> is caught there (one line with the first 100 bytes, then
  \<open>continue\<close>); any other exception reaches the outer handlers.\<close>

definition parse_request :: "runtime \<Rightarrow> bytes \<Rightarrow> exn + pyval" where
  "parse_request rt data =
     (case decode_utf8 rt data of
        Inl e \<Rightarrow> Inl e
      | Inr text \<Rightarrow> json_loads rt (PStr text))"

text \<open>The response dict of lines 303 to 308.\<close>

definition response :: "pyval \<Rightarrow> pyval \<Rightarrow> pyval \<Rightarrow> pyval" where
  "response req_id result error =
     PDict [(ascii ''jsonrpc'', PStr (ascii ''2.0'')),
            (ascii ''id'', req_id),
            (ascii ''result'', result),
            (ascii ''error'', error)]"

text \<open>
  One pass of the \<open>while\<close> body. \<open>request.get\<close> exists only on a dict. The value
  \<open>json.dumps\<close> is given holds the request's id, and a result and an error that are each
  \<open>None\<close> or a string or a value out of the plugin, all within \<open>pyval\<close>, so serialising
  does not raise.
\<close>

definition handle_one :: "runtime \<Rightarrow> 's plugin \<Rightarrow> 's \<Rightarrow> exchange \<Rightarrow> 's pass" where
  "handle_one rt plugin s x =
     (case fst x of
        RecvRaises e \<Rightarrow> Break (loop_fault e) s
      | Received data \<Rightarrow>
          (if data = [] then Break [Recv data, Stderr (rpc_debug [Lit msg_conn_closed])] s
           else
             (case parse_request rt data of
                Inl e \<Rightarrow>
                  (if cls e = JSONDecodeError
                   then Continue
                          [Recv data,
                           Stderr (rpc_debug [Lit msg_cannot_parse, FmtBytes (take 100 data)])] s
                   else Break (Recv data # loop_fault e) s)
              | Inr request \<Rightarrow>
                  (case request of
                     PDict kvs \<Rightarrow>
                       (let method = dict_get kvs (ascii ''method'') (PStr []);
                            params = dict_get kvs (ascii ''params'') (PList []);
                            req_id = dict_get kvs (ascii ''id'') (PInt 0);
                            l1 = Stderr (rpc_debug [Lit msg_request, Fmt method,
                                                    Lit (ascii '', params=''), Fmt params])
                        in case call_method rt plugin method params s of
                             ((result, error), s', out) \<Rightarrow>
                               (let before = Recv data # l1 # map Stderr out in
                                case snd x of
                                  Some e \<Rightarrow> Break (before @ loop_fault e) s'
                                | None \<Rightarrow>
                                    Continue
                                      (before @
                                       [Send (response req_id result error),
                                        Stderr (rpc_debug [Lit msg_response_sent])]) s'))
                   | v \<Rightarrow> Break (Recv data # loop_fault (raised rt (NoAttribute v ''get''))) s))))"

text \<open>
  The server object: its two sockets, each not yet created (\<open>None\<close>), open or closed,
  and the \<open>running\<close> flag.
\<close>

datatype sock = NoSocket | Open | Closed

record server =
  server_socket :: sock
  client_socket :: sock
  running :: bool

text \<open>
  \<open>while self.running:\<close> over the exchanges the peer offers. The loop returns (\<open>True\<close>
  in the third component) when the flag is down or a pass breaks; when the peer offers
  nothing more it is still waiting inside \<open>recv\<close> (\<open>False\<close>). Nothing in the loop
  assigns the flag.
\<close>

fun handle_requests ::
  "runtime \<Rightarrow> 's plugin \<Rightarrow> server \<Rightarrow> 's \<Rightarrow> exchange list \<Rightarrow> event list \<times> 's \<times> bool" where
  "handle_requests rt plugin srv s [] = ([], s, \<not> running srv)"
| "handle_requests rt plugin srv s (x # xs) =
     (if \<not> running srv then ([], s, True)
      else (case handle_one rt plugin s x of
              Break evs s' \<Rightarrow> (evs, s', True)
            | Continue evs s' \<Rightarrow>
                (case handle_requests rt plugin srv s' xs of
                   (evs', s'', returned) \<Rightarrow> (evs @ evs', s'', returned))))"

section \<open>SimpleRPCServer.start and stop\<close>

text \<open>"fuwuqi yi tingzhi" (server stopped), "fuwuqi cuowu: " (server error), "fuwuqi
  qidong zai " (server started at), "dengdai kehuduan lianjie..." (waiting for the
  client), "kehuduan yi lianjie: " (client connected).\<close>

definition msg_stopped :: pystr where
  "msg_stopped = [26381, 21153, 22120, 24050, 20572, 27490]"

definition msg_server_error :: pystr where
  "msg_server_error = [26381, 21153, 22120, 38169, 35823, 58, 32]"

definition msg_started :: pystr where
  "msg_started = [26381, 21153, 22120, 21551, 21160, 22312, 32]"

definition msg_waiting :: pystr where
  "msg_waiting = [31561, 24453, 23458, 25143, 31471, 36830, 25509, 46, 46, 46]"

definition msg_connected :: pystr where
  "msg_connected = [23458, 25143, 31471, 24050, 36830, 25509, 58, 32]"

text \<open>\<open>stop()\<close>: the flag goes down, then each socket that was ever created is closed,
  the client's first.\<close>

definition stop :: "server \<Rightarrow> event list \<times> server" where
  "stop srv =
     ((if client_socket srv \<noteq> NoSocket then [CloseClient] else []) @
      (if server_socket srv \<noteq> NoSocket then [CloseListener] else []) @
      [Stderr (rpc_debug [Lit msg_stopped])],
      srv\<lparr> running := False,
           client_socket := (if client_socket srv \<noteq> NoSocket then Closed else NoSocket),
           server_socket := (if server_socket srv \<noteq> NoSocket then Closed else NoSocket) \<rparr>)"

text \<open>The decimal digits of a port number, as an f-string prints an \<open>int\<close>.\<close>

fun decimal :: "nat \<Rightarrow> pystr" where
  "decimal n = (if n < 10 then [48 + n] else decimal (n div 10) @ [48 + n mod 10])"

text \<open>The handshake line \<open>f"1|2|tcp|{host}:{port}|grpc\n"\<close>.\<close>

definition handshake :: "pystr \<Rightarrow> nat \<Rightarrow> pystr" where
  "handshake host port =
     ascii ''1|2|tcp|'' @ host @ [58] @ decimal port @ ascii ''|grpc'' @ [10]"

text \<open>
  What the network does to \<open>start()\<close>: whether \<open>socket.socket\<close> raises, what the
  calls from \<open>setsockopt\<close> to \<open>getsockname\<close> give (an exception, or the bound host
  and port), what \<open>accept\<close> gives (an exception, or the peer's address), and the
  exchanges on the accepted connection.
\<close>

record network =
  socket_fault :: "exn option"
  bound :: "exn + pystr \<times> nat"
  accepted :: "exn + pystr \<times> nat"
  exchanges :: "exchange list"

text \<open>How a call ends: it returns, an exception leaves it, or it never comes back
  because the loop is still waiting in \<open>recv\<close>.\<close>

datatype ending = Returned | Propagated exn | Waiting

text \<open>The handler and the \<open>finally\<close> of \<open>start()\<close>: print, re-raise, and \<open>stop()\<close> on
  the way out.\<close>

definition start_failed :: "exn \<Rightarrow> server \<Rightarrow> 's \<Rightarrow> event list \<Rightarrow> event list \<times> server \<times> 's \<times> ending" where
  "start_failed e srv s evs =
     (case stop srv of
        (evs', srv') \<Rightarrow>
          (evs @ [Stderr (rpc_debug [Lit msg_server_error, Lit (str_of e)])] @ evs',
           srv', s, Propagated e))"

definition start ::
  "runtime \<Rightarrow> 's plugin \<Rightarrow> server \<Rightarrow> 's \<Rightarrow> network \<Rightarrow> event list \<times> server \<times> 's \<times> ending" where
  "start rt plugin srv s net =
     (case socket_fault net of
        Some e \<Rightarrow> start_failed e srv s []
      | None \<Rightarrow>
          (let srv1 = srv\<lparr>server_socket := Open\<rparr> in
           case bound net of
             Inl e \<Rightarrow> start_failed e srv1 s []
           | Inr (host, port) \<Rightarrow>
               (let evs1 = [Listen,
                            Stdout (handshake host port),
                            Stderr (rpc_debug [Lit msg_started, Lit host, Lit [58],
                                               Fmt (PInt (int port))]),
                            Stderr (rpc_debug [Lit msg_waiting])]
                in case accepted net of
                     Inl e \<Rightarrow> start_failed e srv1 s evs1
                   | Inr (peer_host, peer_port) \<Rightarrow>
                       (let srv2 = srv1\<lparr>client_socket := Open, running := True\<rparr>;
                            evs2 = evs1 @
                                   [Accept,
                                    Stderr (rpc_debug [Lit msg_connected,
                                                       FmtAddr peer_host peer_port])]
                        in case handle_requests rt plugin srv2 s (exchanges net) of
                             (evs3, s', returned) \<Rightarrow>
                               (if returned
                                then (case stop srv2 of
                                        (evs4, srv3) \<Rightarrow> (evs2 @ evs3 @ evs4, srv3, s', Returned))
                                else (evs2 @ evs3, srv2, s', Waiting))))))"

text \<open>The server as \<open>SimpleRPCServer.__init__\<close> leaves it.\<close>

definition new_server :: server where
  "new_server = \<lparr> server_socket = NoSocket, client_socket = NoSocket, running = False \<rparr>"

section \<open>check_environment and main\<close>

text \<open>The process environment, \<open>os.environ.get\<close>.\<close>

type_synonym environ = "string \<Rightarrow> pystr option"

text \<open>The three diagnostics: "cuowu: huanjing bianliang ARCADE_RPC_PLUGIN bu zhengque"
  (the variable is wrong), "tishi: ci chajian bixu you Arcade zhuchengxu qidong" (the
  plugin must be started by Arcade), "cuowu: bu zhichi de xieyi banben" (unsupported
  protocol version).\<close>

definition msg_bad_cookie :: pystr where
  "msg_bad_cookie =
     [38169, 35823, 58, 32, 29615, 22659, 21464, 37327, 32] @ ascii ''ARCADE_RPC_PLUGIN'' @
     [32, 19981, 27491, 30830]"

definition msg_hint :: pystr where
  "msg_hint =
     [25552, 31034, 58, 32, 27492, 25554, 20214, 24517, 39035, 30001, 32] @ ascii ''Arcade'' @
     [32, 20027, 31243, 24207, 21551, 21160]"

definition msg_bad_version :: pystr where
  "msg_bad_version = [38169, 35823, 58, 32, 19981, 25903, 25345, 30340, 21327, 35758, 29256, 26412]"

text \<open>
  \<open>check_environment()\<close>: the lines it prints and the exit code of \<open>sys.exit\<close>, \<open>None\<close>
  when it returns. \<open>'2' not in protocol_versions\<close> is a substring test with a
  one-character needle: the character 50 occurs in the text or not.
\<close>

definition check_environment :: "environ \<Rightarrow> event list \<times> nat option" where
  "check_environment env =
     (if env ''ARCADE_RPC_PLUGIN'' \<noteq> Some (ascii ''arcade-rpc-plugin-protocol'')
      then ([Stderr [Lit msg_bad_cookie], Stderr [Lit msg_hint]], Some 1)
      else (let protocol_versions =
                  (case env ''PLUGIN_PROTOCOL_VERSIONS'' of None \<Rightarrow> ascii ''1'' | Some v \<Rightarrow> v)
            in if 50 \<notin> set protocol_versions
               then ([Stderr [Lit msg_bad_version]], Some 1)
               else ([], None)))"






fun is_socket_event :: "event \<Rightarrow> bool" where
  "is_socket_event (Stderr l) = False"
| "is_socket_event (Stdout l) = False"
| "is_socket_event e = True"

definition socket_events :: "event list \<Rightarrow> event list" where
  "socket_events evs = filter is_socket_event evs"

section \<open>A runtime and inputs for concrete runs\<close>

text \<open>
  The general statements below hold for every runtime. The concrete runs need one; this
  one answers as CPython 3 does on the inputs the runs use. Attribute and call faults
  carry CPython's messages and a traceback of the shape \<open>format_exc\<close> prints (the file
  path shortened to \<open>plugin.py\<close>, the quoted source line left out); the messages for a
  wrong argument count and for \<open>*params\<close> are abridged, since CPython's name the
  callee. Bytes are decoded as ASCII, and a byte above 127 is answered as an invalid
  start byte, which is what the byte 255 of the runs is. \<open>json.loads\<close> knows the
  request texts of the runs and rejects every other text as not JSON.
\<close>

fun type_name :: "pyval \<Rightarrow> string" where
  "type_name PNone = ''NoneType''"
| "type_name (PBool b) = ''bool''"
| "type_name (PInt i) = ''int''"
| "type_name (PFloat w) = ''float''"
| "type_name (PStr s) = ''str''"
| "type_name (PList xs) = ''list''"
| "type_name (PDict kvs) = ''dict''"

definition quoted :: "string \<Rightarrow> pystr" where
  "quoted s = [39] @ ascii s @ [39]"

fun fault_class :: "interp_fault \<Rightarrow> exn_class" where
  "fault_class (NoAttribute v a) = AttributeError"
| "fault_class f = TypeError"

fun class_name :: "exn_class \<Rightarrow> string" where
  "class_name JSONDecodeError = ''json.decoder.JSONDecodeError''"
| "class_name UnicodeDecodeError = ''UnicodeDecodeError''"
| "class_name ConnectionResetError = ''ConnectionResetError''"
| "class_name AttributeError = ''AttributeError''"
| "class_name TypeError = ''TypeError''"
| "class_name OtherException = ''Exception''"

fun fault_message :: "interp_fault \<Rightarrow> pystr" where
  "fault_message (NoAttribute v a) =
     quoted (type_name v) @ ascii '' object has no attribute '' @ quoted a"
| "fault_message (NotCallable v) = quoted (type_name v) @ ascii '' object is not callable''"
| "fault_message (NotIterable v) =
     ascii ''argument after * must be an iterable, not '' @ ascii (type_name v)"
| "fault_message (BadArity nm n) =
     ascii nm @ ascii ''() given '' @ decimal n @ ascii '' positional arguments''"
| "fault_message (NoLen v) =
     ascii ''object of type '' @ quoted (type_name v) @ ascii '' has no len()''"

text \<open>The line and the function of \<open>plugin.py\<close> where each fault is raised.\<close>

fun fault_site :: "interp_fault \<Rightarrow> nat \<times> string" where
  "fault_site (NoAttribute v a) =
     (if a = ''split'' then (334, ''_call_method'')
      else if a = ''get'' then (293, ''_handle_requests'')
      else (348, ''_call_method''))"
| "fault_site (NoLen v) = (205, ''SendBatch'')"
| "fault_site f = (342, ''_call_method'')"

definition traceback :: "nat \<times> string \<Rightarrow> exn_class \<Rightarrow> pystr \<Rightarrow> pystr" where
  "traceback site c message =
     ascii ''Traceback (most recent call last):'' @ [10] @
     ascii ''  File '' @ [34] @ ascii ''plugin.py'' @ [34] @ ascii '', line '' @
       decimal (fst site) @ ascii '', in '' @ ascii (snd site) @ [10] @
     ascii (class_name c) @ ascii '': '' @ message @ [10]"

definition py_raised :: "interp_fault \<Rightarrow> exn" where
  "py_raised f =
     Exn (fault_class f) (fault_message f)
         (traceback (fault_site f) (fault_class f) (fault_message f))"

definition py_decode_utf8 :: "bytes \<Rightarrow> exn + pystr" where
  "py_decode_utf8 data =
     (if list_all (\<lambda>c. of_char c < (128::nat)) data then Inr (map of_char data)
      else (let m = quoted ''utf-8'' @ ascii '' codec can'' @ [39] @
                    ascii ''t decode byte: invalid start byte''
            in Inl (Exn UnicodeDecodeError m
                      (traceback (287, ''_handle_requests'') UnicodeDecodeError m))))"

text \<open>The request texts of the runs and the values they parse to.\<close>

definition request_text :: "string \<Rightarrow> string \<Rightarrow> string \<Rightarrow> bytes" where
  "request_text method params req_id =
     ''{'' @ [CHR 0x22] @ ''method'' @ [CHR 0x22] @ '': '' @ [CHR 0x22] @ method @ [CHR 0x22] @
     '', '' @ [CHR 0x22] @ ''params'' @ [CHR 0x22] @ '': '' @ params @
     '', '' @ [CHR 0x22] @ ''id'' @ [CHR 0x22] @ '': '' @ req_id @ ''}''"

definition request_value :: "string \<Rightarrow> pyval \<Rightarrow> int \<Rightarrow> pyval" where
  "request_value method params req_id =
     PDict [(ascii ''method'', PStr (ascii method)),
            (ascii ''params'', params),
            (ascii ''id'', PInt req_id)]"

text \<open>The parameter list \<^verbatim>\<open>["hi"]\<close> of a request.\<close>

definition hi_params :: string where
  "hi_params = ''['' @ [CHR 0x22] @ ''hi'' @ [CHR 0x22] @ '']''"

definition known_texts :: "(pystr \<times> pyval) list" where
  "known_texts =
     [(ascii (request_text ''Plugin.Name'' ''[]'' ''1''), request_value ''Plugin.Name'' (PList []) 1),
      (ascii (request_text ''Bogus'' ''[]'' ''2''), request_value ''Bogus'' (PList []) 2),
      (ascii (request_text ''_debug'' hi_params ''3''),
       request_value ''_debug'' (PList [PStr (ascii ''hi'')]) 3),
      (ascii (request_text ''name'' ''[]'' ''4''), request_value ''name'' (PList []) 4),
      (ascii (request_text ''Cleanup'' ''[]'' ''5''), request_value ''Cleanup'' (PList []) 5),
      (ascii (request_text ''Count'' ''[]'' ''6''), request_value ''Count'' (PList []) 6),
      (ascii ''[1]'', PList [PInt 1])]"

definition py_json_loads :: "pyval \<Rightarrow> exn + pyval" where
  "py_json_loads v =
     (case v of
        PStr text \<Rightarrow>
          (case map_of known_texts text of
             Some parsed \<Rightarrow> Inr parsed
           | None \<Rightarrow>
               (let m = ascii ''Expecting value: line 1 column 1 (char 0)''
                in Inl (Exn JSONDecodeError m
                          (traceback (287, ''_handle_requests'') JSONDecodeError m))))
      | _ \<Rightarrow>
          (let m = ascii ''the JSON object must be str, bytes or bytearray, not '' @
                   ascii (type_name v)
           in Inl (Exn TypeError m (traceback (71, ''Init'') TypeError m))))"

definition python :: runtime where
  "python = \<lparr> raised = py_raised, decode_utf8 = py_decode_utf8, json_loads = py_json_loads \<rparr>"

text \<open>A second plugin object for the server: one operation, \<open>Count()\<close>, that returns
  the integer 3 and prints nothing.\<close>

definition Count :: "pyval list \<Rightarrow> unit \<Rightarrow> outcome \<times> unit \<times> logline list" where
  "Count args s =
     (if args = [] then (Returns (PInt 3), s, [])
      else (Raises (py_raised (BadArity ''Count'' (length args))), s, []))"

definition CounterPlugin :: "unit plugin" where
  "CounterPlugin s nm = (if nm = ascii ''Count'' then Some (Method Count) else None)"

text \<open>An environment that passes the check, one with a wrong cookie, and a network on
  which binding and accepting succeed.\<close>

definition good_env :: environ where
  "good_env v =
     (if v = ''ARCADE_RPC_PLUGIN'' then Some (ascii ''arcade-rpc-plugin-protocol'')
      else if v = ''PLUGIN_PROTOCOL_VERSIONS'' then Some (ascii ''1,2'')
      else None)"





definition network_with :: "exchange list \<Rightarrow> network" where
  "network_with xs =
     \<lparr> socket_fault = None,
       bound = Inr (ascii ''127.0.0.1'', 40001),
       accepted = Inr (ascii ''127.0.0.1'', 50002),
       exchanges = xs \<rparr>"

definition running_server :: server where
  "running_server = \<lparr> server_socket = Open, client_socket = Open, running = True \<rparr>"

section \<open>Reading a run\<close>

text \<open>The values sent on the connection, in order, and a slot of a response.\<close>

fun sent_of :: "event list \<Rightarrow> pyval list" where
  "sent_of [] = []"
| "sent_of (Send v # evs) = v # sent_of evs"
| "sent_of (e # evs) = sent_of evs"

definition slot :: "string \<Rightarrow> pyval \<Rightarrow> pyval" where
  "slot k r = (case r of PDict kvs \<Rightarrow> dict_get kvs (ascii k) PNone | _ \<Rightarrow> PNone)"

text \<open>The events of one pass and the state it leaves, whichever way it ends.\<close>

fun pass_events :: "'s pass \<Rightarrow> event list" where
  "pass_events (Continue evs s) = evs"
| "pass_events (Break evs s) = evs"

fun pass_state :: "'s pass \<Rightarrow> 's" where
  "pass_state (Continue evs s) = s"
| "pass_state (Break evs s) = s"

fun continues :: "'s pass \<Rightarrow> bool" where
  "continues (Continue evs s) = True"
| "continues (Break evs s) = False"

text \<open>The traffic on the accepted connection: each read with its bytes, each response
  with the id it carries.\<close>

datatype traffic = Rd bytes | Wr pyval

fun traffic_of :: "event list \<Rightarrow> traffic list" where
  "traffic_of [] = []"
| "traffic_of (Recv d # evs) = Rd d # traffic_of evs"
| "traffic_of (Send v # evs) = Wr (slot ''id'' v) # traffic_of evs"
| "traffic_of (e # evs) = traffic_of evs"

text \<open>
  A well-formed request as the loop needs it: the read gives bytes, not empty, that
  decode and parse to a JSON object, and the transport takes the response. Its id is
  what \<open>request.get('id', 0)\<close> reads.
\<close>

definition well_formed :: "runtime \<Rightarrow> exchange \<Rightarrow> bool" where
  "well_formed rt x =
     (case x of
        (Received data, None) \<Rightarrow>
          data \<noteq> [] \<and>
          (case parse_request rt data of Inr (PDict kvs) \<Rightarrow> True | _ \<Rightarrow> False)
      | _ \<Rightarrow> False)"

definition bytes_of :: "exchange \<Rightarrow> bytes" where
  "bytes_of x = (case fst x of Received data \<Rightarrow> data | RecvRaises e \<Rightarrow> [])"

definition request_id :: "runtime \<Rightarrow> exchange \<Rightarrow> pyval" where
  "request_id rt x =
     (case parse_request rt (bytes_of x) of
        Inr (PDict kvs) \<Rightarrow> dict_get kvs (ascii ''id'') (PInt 0)
      | _ \<Rightarrow> PInt 0)"

text \<open>A response in which at most one of the two slots carries something.\<close>

definition one_slot_null :: "pyval \<Rightarrow> bool" where
  "one_slot_null r = (slot ''result'' r = PNone \<or> slot ''error'' r = PNone)"

text \<open>The two calls the dispatch loop makes on the accepted connection.\<close>

fun is_traffic :: "event \<Rightarrow> bool" where
  "is_traffic (Recv d) = True"
| "is_traffic (Send v) = True"
| "is_traffic e = False"

text \<open>\<open>isinstance(v, str)\<close>.\<close>

fun is_str :: "pyval \<Rightarrow> bool" where
  "is_str (PStr t) = True"
| "is_str v = False"

section \<open>The result and error slots\<close>

lemma slot_response:
  "slot ''id'' (response i r e) = i"
  "slot ''result'' (response i r e) = r"
  "slot ''error'' (response i r e) = e"
  by (simp_all add: slot_def response_def dict_get_def ascii_def)

lemma after_call_slots:
  "fst (fst (after_call rt r)) = PNone \<or> snd (fst (after_call rt r)) = PNone"
  by (auto simp: after_call_def call_failed_def
           split: prod.splits outcome.splits sum.splits bool.splits)

lemma call_method_slots:
  "fst (fst (call_method rt plugin method params s)) = PNone \<or>
   snd (fst (call_method rt plugin method params s)) = PNone"
proof (cases "method_name_of rt method")
  case (Inl e)
  then show ?thesis by (simp add: call_method_def call_failed_def)
next
  case (Inr nm)
  show ?thesis
  proof (cases "plugin s nm")
    case None
    with Inr show ?thesis by (simp add: call_method_def)
  next
    case (Some a)
    with Inr after_call_slots [of rt "invoke rt a params s"] show ?thesis
      by (simp add: call_method_def)
  qed
qed

lemma call_method_pair:
  "call_method rt plugin m ps s = ((r, e), s', out) \<Longrightarrow> r = PNone \<or> e = PNone"
  using call_method_slots [of rt plugin m ps s] by simp

lemma sent_of_append: "sent_of (xs @ ys) = sent_of xs @ sent_of ys"
  by (induction xs rule: sent_of.induct) simp_all

lemma sent_of_stderr: "sent_of (map Stderr ls) = []"
  by (induction ls) simp_all

lemma sent_of_loop_fault: "sent_of (loop_fault e) = []"
  by (simp add: loop_fault_def)

text \<open>The pass that serves a request: what it prints, sends and leaves.\<close>

lemma handle_one_request:
  assumes "data \<noteq> []"
    and "parse_request rt data = Inr (PDict kvs)"
    and "call_method rt plugin (dict_get kvs (ascii ''method'') (PStr []))
           (dict_get kvs (ascii ''params'') (PList [])) s = ((r, e), s', out)"
  shows "handle_one rt plugin s (Received data, None) =
           Continue
             (Recv data #
              Stderr (rpc_debug [Lit msg_request, Fmt (dict_get kvs (ascii ''method'') (PStr [])),
                                 Lit (ascii '', params=''),
                                 Fmt (dict_get kvs (ascii ''params'') (PList []))]) #
              map Stderr out @
              [Send (response (dict_get kvs (ascii ''id'') (PInt 0)) r e),
               Stderr (rpc_debug [Lit msg_response_sent])]) s'"
  using assms by (simp add: handle_one_def Let_def)

lemma handle_one_sent:
  "list_all one_slot_null (sent_of (pass_events (handle_one rt plugin s x)))"
  by (auto simp: handle_one_def Let_def sent_of_append sent_of_stderr sent_of_loop_fault
                 one_slot_null_def slot_response
           split: recv_result.splits sum.splits pyval.splits prod.splits option.splits
           dest: call_method_pair)

lemma handle_requests_sent:
  "list_all one_slot_null (sent_of (fst (handle_requests rt plugin srv s xs)))"
proof (induction xs arbitrary: s)
  case Nil
  show ?case by simp
next
  case (Cons x xs)
  show ?case
  proof (cases "handle_one rt plugin s x")
    case (Break evs s')
    with handle_one_sent [of rt plugin s x] show ?thesis by simp
  next
    case (Continue evs s')
    with handle_one_sent [of rt plugin s x] Cons.IH [of s'] show ?thesis
      by (auto simp: sent_of_append split: prod.splits)
  qed
qed

text \<open>
  Claim C4. Whatever the runtime, the plugin, the method, the parameters and the state,
  the pair \<open>_call_method\<close> returns has \<open>None\<close> in its result slot or in its error slot;
  and in every run of the dispatch loop, every response sent on the connection has a
  null \<open>result\<close> or a null \<open>error\<close>.
\<close>

theorem response_never_both_slots:
  "(fst (fst (call_method rt plugin method params s)) = PNone \<or>
    snd (fst (call_method rt plugin method params s)) = PNone) \<and>
   list_all one_slot_null (sent_of (fst (handle_requests rt plugin srv s xs)))"
  by (simp add: call_method_slots handle_requests_sent)

section \<open>One response for each request, in order\<close>

lemma traffic_of_append: "traffic_of (xs @ ys) = traffic_of xs @ traffic_of ys"
  by (induction xs rule: traffic_of.induct) simp_all

lemma traffic_of_stderr: "traffic_of (map Stderr ls) = []"
  by (induction ls) simp_all

lemma well_formedD:
  "well_formed rt x \<Longrightarrow>
     \<exists>data kvs. x = (Received data, None) \<and> data \<noteq> [] \<and>
                parse_request rt data = Inr (PDict kvs)"
  by (auto simp: well_formed_def
           split: prod.splits recv_result.splits option.splits sum.splits pyval.splits)

lemma well_formed_pass:
  assumes "well_formed rt x"
  shows "\<exists>evs s'. handle_one rt plugin s x = Continue evs s' \<and>
                  traffic_of evs = [Rd (bytes_of x), Wr (request_id rt x)] \<and>
                  length (sent_of evs) = 1"
proof -
  from assms obtain data kvs where x: "x = (Received data, None)" and d: "data \<noteq> []"
    and p: "parse_request rt data = Inr (PDict kvs)"
    using well_formedD by blast
  obtain r e s' out where
    c: "call_method rt plugin (dict_get kvs (ascii ''method'') (PStr []))
          (dict_get kvs (ascii ''params'') (PList [])) s = ((r, e), s', out)"
    by (metis prod.exhaust)
  show ?thesis
    unfolding x handle_one_request [OF d p c]
    by (simp add: traffic_of_append traffic_of_stderr sent_of_append sent_of_stderr
                  slot_response bytes_of_def request_id_def p)
qed

text \<open>
  Claim C5. While the server runs, for any sequence of well-formed requests offered one
  per read, the traffic on the connection is, request by request in arrival order, the
  read of the request followed by the response carrying that request's id: as many
  responses as requests, each sent before the next read; after the last response the
  loop has not returned, it waits for the next read.
\<close>

theorem one_response_per_request_in_order:
  assumes "running srv" and "list_all (well_formed rt) xs"
  shows "traffic_of (fst (handle_requests rt plugin srv s xs)) =
           concat (map (\<lambda>x. [Rd (bytes_of x), Wr (request_id rt x)]) xs) \<and>
         length (sent_of (fst (handle_requests rt plugin srv s xs))) = length xs \<and>
         \<not> snd (snd (handle_requests rt plugin srv s xs))"
  using assms(2)
proof (induction xs arbitrary: s)
  case Nil
  with assms(1) show ?case by simp
next
  case (Cons x xs)
  then have wf: "well_formed rt x" and rest: "list_all (well_formed rt) xs" by simp_all
  from well_formed_pass [OF wf, of plugin s] obtain evs s' where
    h: "handle_one rt plugin s x = Continue evs s'" and
    t: "traffic_of evs = [Rd (bytes_of x), Wr (request_id rt x)]" and
    n: "length (sent_of evs) = 1" by blast
  from Cons.IH [OF rest, of s'] assms(1) h t n show ?case
    by (auto simp: traffic_of_append sent_of_append split: prod.splits)
qed

section \<open>Concrete requests\<close>

lemma parse_known:
  "parse_request python (request_text ''Plugin.Name'' ''[]'' ''1'') =
     Inr (request_value ''Plugin.Name'' (PList []) 1)"
  "parse_request python (request_text ''Bogus'' ''[]'' ''2'') =
     Inr (request_value ''Bogus'' (PList []) 2)"
  "parse_request python
     (request_text ''_debug'' hi_params ''3'') =
     Inr (request_value ''_debug'' (PList [PStr (ascii ''hi'')]) 3)"
  "parse_request python (request_text ''name'' ''[]'' ''4'') =
     Inr (request_value ''name'' (PList []) 4)"
  "parse_request python (request_text ''Cleanup'' ''[]'' ''5'') =
     Inr (request_value ''Cleanup'' (PList []) 5)"
  "parse_request python (request_text ''Count'' ''[]'' ''6'') =
     Inr (request_value ''Count'' (PList []) 6)"
  "parse_request python ''[1]'' = Inr (PList [PInt 1])"
  by (simp_all add: parse_request_def python_def py_decode_utf8_def py_json_loads_def
                known_texts_def request_text_def hi_params_def ascii_def)

lemma request_text_nonempty: "request_text m p i \<noteq> []"
  by (simp add: request_text_def)

lemma request_value_get:
  "dict_get [(ascii ''method'', m), (ascii ''params'', p), (ascii ''id'', i)]
     (ascii ''method'') d = m"
  "dict_get [(ascii ''method'', m), (ascii ''params'', p), (ascii ''id'', i)]
     (ascii ''params'') d = p"
  "dict_get [(ascii ''method'', m), (ascii ''params'', p), (ascii ''id'', i)]
     (ascii ''id'') d = i"
  by (simp_all add: dict_get_def ascii_def)

lemma well_formed_known:
  "well_formed python (Received (request_text ''Plugin.Name'' ''[]'' ''1''), None)"
  "well_formed python (Received (request_text ''Bogus'' ''[]'' ''2''), None)"
  by (simp_all add: well_formed_def parse_known request_text_nonempty request_value_def)

theorem one_response_per_request_in_order_witness:
  "running running_server \<and>
   list_all (well_formed python)
     [(Received (request_text ''Plugin.Name'' ''[]'' ''1''), None),
      (Received (request_text ''Bogus'' ''[]'' ''2''), None)] \<and>
   traffic_of (fst (handle_requests python (NotifyPlugin python) running_server notify_init
     [(Received (request_text ''Plugin.Name'' ''[]'' ''1''), None),
      (Received (request_text ''Bogus'' ''[]'' ''2''), None)])) =
   [Rd (request_text ''Plugin.Name'' ''[]'' ''1''), Wr (PInt 1),
    Rd (request_text ''Bogus'' ''[]'' ''2''), Wr (PInt 2)]"
proof -
  have r: "running running_server" by (simp add: running_server_def)
  have w: "list_all (well_formed python)
     [(Received (request_text ''Plugin.Name'' ''[]'' ''1''), None),
      (Received (request_text ''Bogus'' ''[]'' ''2''), None)]"
    by (simp add: well_formed_known)
  from one_response_per_request_in_order [OF r w, of "NotifyPlugin python" notify_init] r w
  show ?thesis
    by (simp add: bytes_of_def request_id_def parse_known request_value_def request_value_get)
qed

section \<open>What a call returns\<close>

lemma call_method_resolved:
  "plugin s (split_last m) = Some func \<Longrightarrow>
     call_method rt plugin (PStr m) params s = after_call rt (invoke rt func params s)"
  by (simp add: call_method_def method_name_of_def)

lemma call_method_unresolved:
  "plugin s (split_last m) = None \<Longrightarrow>
     call_method rt plugin (PStr m) params s =
       ((PNone, PStr (msg_method @ split_last m @ msg_not_exist)), s, [])"
  by (simp add: call_method_def method_name_of_def)

lemma after_call_none:
  "after_call rt (Returns PNone, s, out) = ((PNone, PNone), s, out)"
  by (simp add: after_call_def is_error_return_def)

lemma after_call_raises:
  "after_call rt (Raises e, s, out) =
     ((PNone, PStr (error_msg e)), s, out @ [rpc_debug [Lit (error_msg e)]])"
  by (simp add: after_call_def call_failed_def)

lemma after_call_string:
  "after_call rt (Returns (PStr t), s, out) =
     (if startswith t marker_error \<or> startswith t marker_failure
      then ((PNone, PStr t), s, out) else ((PStr t, PNone), s, out))"
  by (simp add: after_call_def is_error_return_def)

lemma after_call_other:
  "v \<noteq> PNone \<Longrightarrow> \<not> is_str v \<Longrightarrow>
     after_call rt (Returns v, s, out) =
       call_failed (raised rt (NoAttribute v ''startswith'')) s out"
  by (cases v) (simp_all add: after_call_def is_error_return_def)

lemma split_last_plain:
  "split_last (ascii ''_debug'') = ascii ''_debug''"
  "split_last (ascii ''name'') = ascii ''name''"
  "split_last (ascii ''Bogus'') = ascii ''Bogus''"
  "split_last (ascii ''Cleanup'') = ascii ''Cleanup''"
  "split_last (ascii ''Count'') = ascii ''Count''"
  "split_last (ascii ''Plugin.Name'') = ascii ''Name''"
  by (simp_all add: split_last_def ascii_def)

lemma notify_lookup:
  "NotifyPlugin rt s (ascii ''_debug'') = Some (Method (debug_method rt))"
  "NotifyPlugin rt s (ascii ''name'') = Some (Data (PStr (np_name s)))"
  "NotifyPlugin rt s (ascii ''Cleanup'') = Some (Method (Cleanup rt))"
  "NotifyPlugin rt s (ascii ''Name'') = Some (Method (getter rt ''Name'' np_name))"
  "NotifyPlugin rt s (ascii ''Bogus'') = None"
  by (simp_all add: NotifyPlugin_def notify_attrs_def ascii_def)

section \<open>A call that returns nothing\<close>

lemma handle_one_sends:
  assumes "data \<noteq> []"
    and "parse_request rt data = Inr (PDict kvs)"
    and "call_method rt plugin (dict_get kvs (ascii ''method'') (PStr []))
           (dict_get kvs (ascii ''params'') (PList [])) s = ((r, e), s', out)"
  shows "sent_of (pass_events (handle_one rt plugin s (Received data, None))) =
           [response (dict_get kvs (ascii ''id'') (PInt 0)) r e]"
    and "continues (handle_one rt plugin s (Received data, None))"
    and "pass_state (handle_one rt plugin s (Received data, None)) = s'"
  unfolding handle_one_request [OF assms]
  by (simp_all add: sent_of_append sent_of_stderr)

text \<open>
  Claim C9. For a request that parses to a JSON object, whose method name resolves to an
  attribute of the plugin and whose call returns \<open>None\<close>, \<open>_call_method\<close> gives
  \<open>(None, None)\<close> and the one response the pass sends carries the request's id, a null
  \<open>result\<close> and a null \<open>error\<close>.
\<close>

theorem none_return_is_plain_success:
  assumes "data \<noteq> []"
    and "parse_request rt data = Inr (PDict kvs)"
    and "dict_get kvs (ascii ''method'') (PStr []) = PStr m"
    and "plugin s (split_last m) = Some func"
    and "invoke rt func (dict_get kvs (ascii ''params'') (PList [])) s = (Returns PNone, s', out)"
  shows "fst (call_method rt plugin (PStr m) (dict_get kvs (ascii ''params'') (PList [])) s) =
           (PNone, PNone) \<and>
         sent_of (pass_events (handle_one rt plugin s (Received data, None))) =
           [response (dict_get kvs (ascii ''id'') (PInt 0)) PNone PNone]"
proof -
  have c: "call_method rt plugin (dict_get kvs (ascii ''method'') (PStr []))
             (dict_get kvs (ascii ''params'') (PList [])) s = ((PNone, PNone), s', out)"
    using assms(3-5) by (simp add: call_method_resolved after_call_none)
  from handle_one_sends(1) [OF assms(1,2) c] c assms(3) show ?thesis by simp
qed

lemma invoke_cleanup:
  "invoke rt (Method (Cleanup rt)) (PList []) s =
     (Returns PNone, s,
      [np_debug s [Lit (ascii ''Cleanup()'' @ msg_called)], np_debug s [Lit msg_cleanup_ok]])"
  by (simp add: invoke_def Cleanup_def)

theorem none_return_is_plain_success_witness:
  "sent_of (pass_events (handle_one python (NotifyPlugin python) notify_init
      (Received (request_text ''Cleanup'' ''[]'' ''5''), None))) =
     [response (PInt 5) PNone PNone]"
  using none_return_is_plain_success
    [of "request_text ''Cleanup'' ''[]'' ''5''" python
        "[(ascii ''method'', PStr (ascii ''Cleanup'')), (ascii ''params'', PList []),
          (ascii ''id'', PInt 5)]"
        "ascii ''Cleanup''" "NotifyPlugin python" notify_init "Method (Cleanup python)"
        notify_init
        "[np_debug notify_init [Lit (ascii ''Cleanup()'' @ msg_called)],
          np_debug notify_init [Lit msg_cleanup_ok]]"]
  by (simp add: request_text_nonempty parse_known request_value_def request_value_get
                split_last_plain notify_lookup invoke_cleanup)

section \<open>Resolution by attribute\<close>

lemma invoke_debug:
  "invoke rt (Method (debug_method rt)) (PList [v]) s =
     (Returns PNone, s, [np_debug s [Fmt v]])"
  by (simp add: invoke_def debug_method_def)

lemma invoke_data:
  "invoke rt (Data v) (PList args) s = (Raises (raised rt (NotCallable v)), s, [])"
  by (simp add: invoke_def)

text \<open>
  Claim C10. Resolution looks only at whether the plugin object has an attribute of the
  stripped name: whenever it has one, \<open>_call_method\<close> goes on to the call, whatever the
  attribute is. On a \<open>NotifyPlugin\<close>, the helper \<open>_debug\<close> with one string parameter
  is called, prints its line and gives \<open>(None, None)\<close>; the data attribute \<open>name\<close>
  resolves too, and it is the call of the string that raises.
\<close>

theorem resolution_is_attribute_lookup:
  "(plugin s (split_last m) = Some func \<longrightarrow>
      call_method rt plugin (PStr m) params s = after_call rt (invoke rt func params s)) \<and>
   call_method rt (NotifyPlugin rt) (PStr (ascii ''_debug'')) (PList [PStr msg]) t =
     ((PNone, PNone), t, [np_debug t [Fmt (PStr msg)]]) \<and>
   call_method rt (NotifyPlugin rt) (PStr (ascii ''name'')) (PList []) t =
     call_failed (raised rt (NotCallable (PStr (np_name t)))) t []"
  by (simp add: call_method_resolved split_last_plain notify_lookup invoke_debug invoke_data
                after_call_none after_call_raises call_failed_def)

theorem resolution_is_attribute_lookup_witness:
  "NotifyPlugin python notify_init (split_last (ascii ''Plugin.Name'')) =
     Some (Method (getter python ''Name'' np_name)) \<and>
   call_method python (NotifyPlugin python) (PStr (ascii ''Plugin.Name'')) (PList []) notify_init =
     after_call python
       (invoke python (Method (getter python ''Name'' np_name)) (PList []) notify_init)"
  using resolution_is_attribute_lookup
    [of "NotifyPlugin python" notify_init "ascii ''Plugin.Name''"
        "Method (getter python ''Name'' np_name)" python "PList []"]
  by (simp add: split_last_plain notify_lookup)

section \<open>Names that are not attributes\<close>

text \<open>
  Claim C6, as the code has it. For a request that parses to a JSON object whose method
  is a string, when the plugin object has no attribute of the stripped name, the pass
  sends one response with the request's id, a null \<open>result\<close> and the error "fangfa
  (name) bu cunzai"; the plugin's state is unchanged and the loop goes on.
\<close>

theorem unknown_attribute_is_reported:
  assumes "data \<noteq> []"
    and "parse_request rt data = Inr (PDict kvs)"
    and "dict_get kvs (ascii ''method'') (PStr []) = PStr m"
    and "plugin s (split_last m) = None"
  shows "sent_of (pass_events (handle_one rt plugin s (Received data, None))) =
           [response (dict_get kvs (ascii ''id'') (PInt 0)) PNone
              (PStr (msg_method @ split_last m @ msg_not_exist))] \<and>
         continues (handle_one rt plugin s (Received data, None)) \<and>
         pass_state (handle_one rt plugin s (Received data, None)) = s"
proof -
  have c: "call_method rt plugin (dict_get kvs (ascii ''method'') (PStr []))
             (dict_get kvs (ascii ''params'') (PList [])) s =
           ((PNone, PStr (msg_method @ split_last m @ msg_not_exist)), s, [])"
    using assms(3,4) by (simp add: call_method_unresolved)
  from handle_one_sends [OF assms(1,2) c] show ?thesis by simp
qed

theorem unknown_attribute_is_reported_witness:
  "sent_of (pass_events (handle_one python (NotifyPlugin python) notify_init
      (Received (request_text ''Bogus'' ''[]'' ''2''), None))) =
     [response (PInt 2) PNone (PStr (msg_method @ ascii ''Bogus'' @ msg_not_exist))]"
  using unknown_attribute_is_reported
    [of "request_text ''Bogus'' ''[]'' ''2''" python
        "[(ascii ''method'', PStr (ascii ''Bogus'')), (ascii ''params'', PList []),
          (ascii ''id'', PInt 2)]"
        "ascii ''Bogus''" "NotifyPlugin python" notify_init]
  by (simp add: request_text_nonempty parse_known request_value_def request_value_get
                split_last_plain notify_lookup)

text \<open>
  Claim C6 as stated fails: \<open>_debug\<close> is not one of the operations of the plugin's
  interface, yet the request naming it is answered with a null error.
\<close>

theorem helper_is_not_unknown_counterexample:
  "ascii ''_debug'' \<notin> set interface_operations \<and>
   sent_of (pass_events (handle_one python (NotifyPlugin python) notify_init
      (Received (request_text ''_debug'' hi_params ''3''),
       None))) =
     [response (PInt 3) PNone PNone]"
proof -
  have c: "call_method python (NotifyPlugin python)
             (dict_get [(ascii ''method'', PStr (ascii ''_debug'')),
                        (ascii ''params'', PList [PStr (ascii ''hi'')]),
                        (ascii ''id'', PInt 3)] (ascii ''method'') (PStr []))
             (dict_get [(ascii ''method'', PStr (ascii ''_debug'')),
                        (ascii ''params'', PList [PStr (ascii ''hi'')]),
                        (ascii ''id'', PInt 3)] (ascii ''params'') (PList [])) notify_init =
           ((PNone, PNone), notify_init, [np_debug notify_init [Fmt (PStr (ascii ''hi''))]])"
    by (simp add: request_value_get call_method_resolved split_last_plain notify_lookup
                  invoke_debug after_call_none)
  have p: "parse_request python
             (request_text ''_debug'' hi_params ''3'') =
           Inr (PDict [(ascii ''method'', PStr (ascii ''_debug'')),
                       (ascii ''params'', PList [PStr (ascii ''hi'')]),
                       (ascii ''id'', PInt 3)])"
    by (simp add: parse_known request_value_def)
  have n: "ascii ''_debug'' \<notin> set interface_operations"
    by (simp add: interface_operations_def ascii_def)
  from handle_one_sends(1) [OF request_text_nonempty p c] n show ?thesis
    by (simp add: request_value_get)
qed

section \<open>A call that raises\<close>

text \<open>
  Claim C2, as the code has it. For a request that parses to a JSON object, when the
  method is not a string (so that resolving it raises) or the resolved attribute's call
  raises, the pass still sends one response with the request's id and a null \<open>result\<close>,
  and goes on; the error string is "diaoyong fangfa shibai: ", the fault's description,
  a newline and the full traceback text, and the same string is printed on standard
  error.
\<close>

theorem fault_is_answered_with_trace:
  assumes "data \<noteq> []"
    and "parse_request rt data = Inr (PDict kvs)"
    and "method_name_of rt (dict_get kvs (ascii ''method'') (PStr [])) = Inl e \<or>
         (\<exists>nm func. method_name_of rt (dict_get kvs (ascii ''method'') (PStr [])) = Inr nm \<and>
                     plugin s nm = Some func \<and>
                     fst (invoke rt func (dict_get kvs (ascii ''params'') (PList [])) s) =
                       Raises e)"
  shows "sent_of (pass_events (handle_one rt plugin s (Received data, None))) =
           [response (dict_get kvs (ascii ''id'') (PInt 0)) PNone
              (PStr (msg_call_failed @ str_of e @ [10] @ trace_of e))] \<and>
         continues (handle_one rt plugin s (Received data, None)) \<and>
         Stderr (rpc_debug [Lit (msg_call_failed @ str_of e @ [10] @ trace_of e)])
           \<in> set (pass_events (handle_one rt plugin s (Received data, None)))"
proof -
  let ?m = "dict_get kvs (ascii ''method'') (PStr [])"
  let ?p = "dict_get kvs (ascii ''params'') (PList [])"
  have "\<exists>s' out. call_method rt plugin ?m ?p s =
          ((PNone, PStr (error_msg e)), s', out @ [rpc_debug [Lit (error_msg e)]])"
    using assms(3)
  proof
    assume "method_name_of rt ?m = Inl e"
    then have "call_method rt plugin ?m ?p s =
                 ((PNone, PStr (error_msg e)), s, [] @ [rpc_debug [Lit (error_msg e)]])"
      by (simp add: call_method_def call_failed_def)
    then show ?thesis by blast
  next
    assume "\<exists>nm func. method_name_of rt ?m = Inr nm \<and> plugin s nm = Some func \<and>
                      fst (invoke rt func ?p s) = Raises e"
    then obtain nm func where n: "method_name_of rt ?m = Inr nm"
      and f: "plugin s nm = Some func" and i: "fst (invoke rt func ?p s) = Raises e" by blast
    obtain s' out where "invoke rt func ?p s = (Raises e, s', out)"
      using i by (cases "invoke rt func ?p s") auto
    with n f have "call_method rt plugin ?m ?p s =
                     ((PNone, PStr (error_msg e)), s', out @ [rpc_debug [Lit (error_msg e)]])"
      by (simp add: call_method_def after_call_raises)
    then show ?thesis by blast
  qed
  then obtain s' out where
    c: "call_method rt plugin ?m ?p s =
          ((PNone, PStr (error_msg e)), s', out @ [rpc_debug [Lit (error_msg e)]])" by blast
  show ?thesis
    unfolding handle_one_request [OF assms(1,2) c]
    by (simp add: sent_of_append sent_of_stderr error_msg_def)
qed

lemma python_raised: "raised python = py_raised"
  by (simp add: python_def)

lemma notify_init_name: "np_name notify_init = ascii ''python-notify''"
  by (simp add: notify_init_def)

theorem fault_is_answered_with_trace_witness:
  "sent_of (pass_events (handle_one python (NotifyPlugin python) notify_init
      (Received (request_text ''name'' ''[]'' ''4''), None))) =
     [response (PInt 4) PNone
        (PStr (msg_call_failed @
               str_of (py_raised (NotCallable (PStr (ascii ''python-notify'')))) @ [10] @
               trace_of (py_raised (NotCallable (PStr (ascii ''python-notify''))))))]"
proof -
  let ?kvs = "[(ascii ''method'', PStr (ascii ''name'')), (ascii ''params'', PList []),
               (ascii ''id'', PInt 4)]"
  have p: "parse_request python (request_text ''name'' ''[]'' ''4'') = Inr (PDict ?kvs)"
    by (simp add: parse_known request_value_def)
  have h: "method_name_of python (dict_get ?kvs (ascii ''method'') (PStr [])) =
             Inl (py_raised (NotCallable (PStr (ascii ''python-notify'')))) \<or>
           (\<exists>nm func. method_name_of python (dict_get ?kvs (ascii ''method'') (PStr [])) = Inr nm \<and>
              NotifyPlugin python notify_init nm = Some func \<and>
              fst (invoke python func (dict_get ?kvs (ascii ''params'') (PList [])) notify_init) =
                Raises (py_raised (NotCallable (PStr (ascii ''python-notify'')))))"
    by (simp add: request_value_get method_name_of_def split_last_plain notify_lookup
                  invoke_data python_raised notify_init_name)
  have d: "request_text ''name'' ''[]'' ''4'' \<noteq> []" by (rule request_text_nonempty)
  from fault_is_answered_with_trace
         [where plugin = "NotifyPlugin python" and s = notify_init, OF d p h]
  show ?thesis
    by (simp add: request_value_get)
qed

text \<open>
  Claim C2 as stated fails in its last part: the traceback is in the error field of the
  response. The request names the data attribute \<open>name\<close>; calling the string raises
  \<open>TypeError\<close>, and the error sent ends with the traceback text.
\<close>

theorem trace_on_the_wire_counterexample:
  "sent_of (pass_events (handle_one python (NotifyPlugin python) notify_init
      (Received (request_text ''name'' ''[]'' ''4''), None))) =
     [response (PInt 4) PNone
        (PStr (msg_call_failed @
               (quoted ''str'' @ ascii '' object is not callable'') @ [10] @
               traceback (342, ''_call_method'') TypeError
                 (quoted ''str'' @ ascii '' object is not callable'')))] \<and>
   traceback (342, ''_call_method'') TypeError
     (quoted ''str'' @ ascii '' object is not callable'') \<noteq> []"
proof -
  let ?kvs = "[(ascii ''method'', PStr (ascii ''name'')), (ascii ''params'', PList []),
               (ascii ''id'', PInt 4)]"
  let ?e = "py_raised (NotCallable (PStr (ascii ''python-notify'')))"
  have p: "parse_request python (request_text ''name'' ''[]'' ''4'') = Inr (PDict ?kvs)"
    by (simp add: parse_known request_value_def)
  have d: "request_text ''name'' ''[]'' ''4'' \<noteq> []" by (rule request_text_nonempty)
  have c: "call_method python (NotifyPlugin python) (dict_get ?kvs (ascii ''method'') (PStr []))
             (dict_get ?kvs (ascii ''params'') (PList [])) notify_init =
           ((PNone, PStr (error_msg ?e)), notify_init, [] @ [rpc_debug [Lit (error_msg ?e)]])"
    by (simp add: request_value_get call_method_resolved split_last_plain notify_lookup
                  invoke_data after_call_raises python_raised notify_init_name)
  have m: "error_msg ?e =
             msg_call_failed @ (quoted ''str'' @ ascii '' object is not callable'') @ [10] @
             traceback (342, ''_call_method'') TypeError
               (quoted ''str'' @ ascii '' object is not callable'')"
    by (simp add: error_msg_def py_raised_def)
  have t: "traceback (342, ''_call_method'') TypeError
             (quoted ''str'' @ ascii '' object is not callable'') \<noteq> []"
    by (simp add: traceback_def ascii_def)
  from handle_one_sends(1) [OF d p c] m t show ?thesis
    by (simp add: request_value_get)
qed

section \<open>A call that returns a value\<close>

text \<open>A returned string is sorted by its prefix, as the comment above line 348 says.\<close>

lemma string_return:
  assumes "plugin s (split_last m) = Some func"
    and "invoke rt func params s = (Returns (PStr t), s', out)"
  shows "fst (call_method rt plugin (PStr m) params s) =
           (if startswith t marker_error \<or> startswith t marker_failure
            then (PNone, PStr t) else (PStr t, PNone))"
  using assms by (simp add: call_method_resolved after_call_string)

text \<open>Any other value that is not \<open>None\<close> reaches \<open>result.startswith\<close> without
  having that attribute: the handler turns the \<open>AttributeError\<close> into the error.\<close>

lemma other_return:
  assumes "plugin s (split_last m) = Some func"
    and "invoke rt func params s = (Returns v, s', out)"
    and "v \<noteq> PNone" and "\<not> is_str v"
  shows "fst (call_method rt plugin (PStr m) params s) =
           (PNone, PStr (error_msg (raised rt (NoAttribute v ''startswith''))))"
  using assms by (simp add: call_method_resolved after_call_other call_failed_def)

text \<open>
  Claim C1 fails on the code. \<open>Count()\<close> returns the integer 3, which is a value and no
  string; the response to the request has a null \<open>result\<close> and, as \<open>error\<close>, the
  message of the \<open>AttributeError\<close> for \<open>startswith\<close>, where the claim has \<open>result\<close> 3
  and a null \<open>error\<close>.
\<close>

theorem integer_return_is_answered_as_error:
  "invoke python (Method Count) (PList []) () = (Returns (PInt 3), (), []) \<and>
   sent_of (pass_events (handle_one python CounterPlugin ()
      (Received (request_text ''Count'' ''[]'' ''6''), None))) =
     [response (PInt 6) PNone
        (PStr (msg_call_failed @
               (quoted ''int'' @ ascii '' object has no attribute '' @ quoted ''startswith'') @
               [10] @
               traceback (348, ''_call_method'') AttributeError
                 (quoted ''int'' @ ascii '' object has no attribute '' @
                  quoted ''startswith'')))]"
proof -
  let ?kvs = "[(ascii ''method'', PStr (ascii ''Count'')), (ascii ''params'', PList []),
               (ascii ''id'', PInt 6)]"
  let ?e = "py_raised (NoAttribute (PInt 3) ''startswith'')"
  have p: "parse_request python (request_text ''Count'' ''[]'' ''6'') = Inr (PDict ?kvs)"
    by (simp add: parse_known request_value_def)
  have d: "request_text ''Count'' ''[]'' ''6'' \<noteq> []" by (rule request_text_nonempty)
  have i: "invoke python (Method Count) (PList []) () = (Returns (PInt 3), (), [])"
    by (simp add: invoke_def Count_def)
  have l: "CounterPlugin () (ascii ''Count'') = Some (Method Count)"
    by (simp add: CounterPlugin_def)
  have c: "call_method python CounterPlugin (dict_get ?kvs (ascii ''method'') (PStr []))
             (dict_get ?kvs (ascii ''params'') (PList [])) () =
           ((PNone, PStr (error_msg ?e)), (), [] @ [rpc_debug [Lit (error_msg ?e)]])"
    by (simp add: request_value_get call_method_resolved split_last_plain l i
                  after_call_other call_failed_def python_raised)
  have m: "error_msg ?e =
             msg_call_failed @
             (quoted ''int'' @ ascii '' object has no attribute '' @ quoted ''startswith'') @
             [10] @
             traceback (348, ''_call_method'') AttributeError
               (quoted ''int'' @ ascii '' object has no attribute '' @ quoted ''startswith'')"
    by (simp add: error_msg_def py_raised_def)
  from handle_one_sends(1) [OF d p c] m i show ?thesis
    by (simp add: request_value_get)
qed

section \<open>Reads that are not requests\<close>

lemma handle_requests_continue:
  "running srv \<Longrightarrow> handle_one rt plugin s x = Continue evs s' \<Longrightarrow>
     handle_requests rt plugin srv s (x # xs) =
       (evs @ fst (handle_requests rt plugin srv s' xs),
        fst (snd (handle_requests rt plugin srv s' xs)),
        snd (snd (handle_requests rt plugin srv s' xs)))"
  by (simp split: prod.splits)

lemma handle_requests_break:
  "running srv \<Longrightarrow> handle_one rt plugin s x = Break evs s' \<Longrightarrow>
     handle_requests rt plugin srv s (x # xs) = (evs, s', True)"
  by simp

text \<open>Bytes that \<open>json.loads\<close> rejects with \<open>JSONDecodeError\<close> are logged and
  skipped: no response, and the loop reads on.\<close>

lemma json_error_is_skipped:
  assumes "running srv" and "data \<noteq> []"
    and "parse_request rt data = Inl e" and "cls e = JSONDecodeError"
  shows "handle_requests rt plugin srv s ((Received data, snd_fault) # xs) =
           ([Recv data, Stderr (rpc_debug [Lit msg_cannot_parse, FmtBytes (take 100 data)])] @
              fst (handle_requests rt plugin srv s xs),
            fst (snd (handle_requests rt plugin srv s xs)),
            snd (snd (handle_requests rt plugin srv s xs)))"
proof -
  have "handle_one rt plugin s (Received data, snd_fault) =
          Continue [Recv data,
                    Stderr (rpc_debug [Lit msg_cannot_parse, FmtBytes (take 100 data)])] s"
    using assms(2-4) by (simp add: handle_one_def)
  from handle_requests_continue [OF assms(1) this] show ?thesis .
qed

text \<open>Bytes that fail to decode or parse with any other exception end the loop: what
  the peer sends afterwards is never read.\<close>

lemma other_parse_error_ends_loop:
  assumes "running srv" and "data \<noteq> []"
    and "parse_request rt data = Inl e" and "cls e \<noteq> JSONDecodeError"
  shows "handle_requests rt plugin srv s ((Received data, snd_fault) # xs) =
           (Recv data # loop_fault e, s, True)"
proof -
  have "handle_one rt plugin s (Received data, snd_fault) = Break (Recv data # loop_fault e) s"
    using assms(2-4) by (simp add: handle_one_def)
  from handle_requests_break [OF assms(1) this] show ?thesis .
qed

text \<open>Bytes that parse to JSON that is no object end the loop too, at
  \<open>request.get\<close>.\<close>

lemma not_an_object_ends_loop:
  assumes "running srv" and "data \<noteq> []"
    and "parse_request rt data = Inr v" and "\<forall>kvs. v \<noteq> PDict kvs"
  shows "handle_requests rt plugin srv s ((Received data, snd_fault) # xs) =
           (Recv data # loop_fault (raised rt (NoAttribute v ''get'')), s, True)"
proof -
  have "handle_one rt plugin s (Received data, snd_fault) =
          Break (Recv data # loop_fault (raised rt (NoAttribute v ''get''))) s"
    using assms(2-4) by (cases v) (simp_all add: handle_one_def)
  from handle_requests_break [OF assms(1) this] show ?thesis .
qed

lemma parse_byte_255:
  "parse_request python [CHR 0xFF] =
     Inl (Exn UnicodeDecodeError
            (quoted ''utf-8'' @ ascii '' codec can'' @ [39] @
             ascii ''t decode byte: invalid start byte'')
            (traceback (287, ''_handle_requests'') UnicodeDecodeError
               (quoted ''utf-8'' @ ascii '' codec can'' @ [39] @
                ascii ''t decode byte: invalid start byte'')))"
  by (simp add: parse_request_def python_def py_decode_utf8_def Let_def)

text \<open>
  Claim C3 fails on the code. A read of the single byte 255, which is not UTF-8, is
  followed by a well-formed request: the loop logs the fault and returns; the request is
  never read and nothing is sent. The same happens after the bytes \<^verbatim>\<open>[1]\<close>, which are
  JSON but no object.
\<close>

theorem malformed_read_ends_session:
  "handle_requests python (NotifyPlugin python) running_server notify_init
     [(Received [CHR 0xFF], None), (Received (request_text ''Bogus'' ''[]'' ''2''), None)] =
     (Recv [CHR 0xFF] #
      loop_fault (Exn UnicodeDecodeError
            (quoted ''utf-8'' @ ascii '' codec can'' @ [39] @
             ascii ''t decode byte: invalid start byte'')
            (traceback (287, ''_handle_requests'') UnicodeDecodeError
               (quoted ''utf-8'' @ ascii '' codec can'' @ [39] @
                ascii ''t decode byte: invalid start byte''))),
      notify_init, True) \<and>
   handle_requests python (NotifyPlugin python) running_server notify_init
     [(Received ''[1]'', None), (Received (request_text ''Bogus'' ''[]'' ''2''), None)] =
     (Recv ''[1]'' # loop_fault (py_raised (NoAttribute (PList [PInt 1]) ''get'')),
      notify_init, True)"
proof -
  have r: "running running_server" by (simp add: running_server_def)
  have a: "handle_one python (NotifyPlugin python) notify_init (Received [CHR 0xFF], None) =
             Break (Recv [CHR 0xFF] #
      loop_fault (Exn UnicodeDecodeError
            (quoted ''utf-8'' @ ascii '' codec can'' @ [39] @
             ascii ''t decode byte: invalid start byte'')
            (traceback (287, ''_handle_requests'') UnicodeDecodeError
               (quoted ''utf-8'' @ ascii '' codec can'' @ [39] @
                ascii ''t decode byte: invalid start byte'')))) notify_init"
    by (simp add: handle_one_def parse_byte_255)
  have b: "handle_one python (NotifyPlugin python) notify_init (Received ''[1]'', None) =
             Break (Recv ''[1]'' # loop_fault (py_raised (NoAttribute (PList [PInt 1]) ''get'')))
               notify_init"
    by (simp add: handle_one_def parse_known python_raised)
  from handle_requests_break [OF r a] handle_requests_break [OF r b] show ?thesis by simp
qed

section \<open>The credential check\<close>





lemma good_env_passes: "check_environment good_env = ([], None)"
  by (simp add: check_environment_def good_env_def ascii_def)

section \<open>Accepting and closing\<close>

lemma socket_events_append:
  "socket_events (xs @ ys) = socket_events xs @ socket_events ys"
  by (simp add: socket_events_def)

lemma socket_filter_stderr: "filter is_socket_event (map Stderr ls) = []"
  by (induction ls) simp_all

lemma socket_filter_loop_fault: "filter is_socket_event (loop_fault e) = []"
  by (simp add: loop_fault_def)

lemma handle_one_traffic:
  "list_all is_traffic (socket_events (pass_events (handle_one rt plugin s x)))"
  by (auto simp: handle_one_def Let_def socket_events_def socket_filter_stderr
                 socket_filter_loop_fault
           split: recv_result.splits sum.splits pyval.splits prod.splits option.splits)

lemma handle_requests_traffic:
  "list_all is_traffic (socket_events (fst (handle_requests rt plugin srv s xs)))"
proof (induction xs arbitrary: s)
  case Nil
  show ?case by (simp add: socket_events_def)
next
  case (Cons x xs)
  show ?case
  proof (cases "handle_one rt plugin s x")
    case (Break evs s')
    with handle_one_traffic [of rt plugin s x] show ?thesis by (simp add: socket_events_def)
  next
    case (Continue evs s')
    with handle_one_traffic [of rt plugin s x] Cons.IH [of s'] show ?thesis
      by (auto simp: socket_events_append socket_events_def split: prod.splits)
  qed
qed

lemma new_server_serving:
  "new_server\<lparr>server_socket := Open, client_socket := Open, running := True\<rparr> = running_server"
  by (simp add: new_server_def running_server_def)

lemma stop_running_server:
  "fst (stop running_server) = [CloseClient, CloseListener, Stderr (rpc_debug [Lit msg_stopped])]"
  by (simp add: stop_def running_server_def)

lemma start_socket_events:
  assumes "socket_fault net = None" and "bound net = Inr (host, port)"
    and "accepted net = Inr peer"
  shows "socket_events (fst (start rt plugin new_server s net)) =
           [Listen, Accept] @
           socket_events (fst (handle_requests rt plugin running_server s (exchanges net))) @
           (if snd (snd (handle_requests rt plugin running_server s (exchanges net)))
            then [CloseClient, CloseListener] else [])"
proof -
  obtain evs s' returned where
    h: "handle_requests rt plugin running_server s (exchanges net) = (evs, s', returned)"
    by (cases "handle_requests rt plugin running_server s (exchanges net)") auto
  obtain ph pp where pe: "peer = (ph, pp)" by (cases peer) auto
  obtain evs4 srv3 where st: "stop running_server = (evs4, srv3)"
    by (cases "stop running_server") auto
  with stop_running_server have e4: "evs4 = [CloseClient, CloseListener, Stderr (rpc_debug [Lit msg_stopped])]"
    by simp
  show ?thesis
    using assms h pe st e4
    by (simp add: start_def Let_def new_server_serving socket_events_append)
       (simp add: socket_events_def)
qed

text \<open>
  Claim C8, as the code has it. When the listening socket is bound and a connection
  arrives, \<open>start()\<close> listens, accepts exactly once and hands the connection to the
  dispatch loop, which only reads and sends on it. The listening socket stays open for
  the whole session: it is closed by \<open>stop()\<close> after the loop has returned, right after
  the accepted connection, and not at all while the loop still waits for a read.
\<close>

theorem listener_closes_at_teardown:
  assumes "socket_fault net = None" and "bound net = Inr (host, port)"
    and "accepted net = Inr peer"
  shows "socket_events (fst (start rt plugin new_server s net)) =
           [Listen, Accept] @
           socket_events (fst (handle_requests rt plugin running_server s (exchanges net))) @
           (if snd (snd (handle_requests rt plugin running_server s (exchanges net)))
            then [CloseClient, CloseListener] else []) \<and>
         list_all is_traffic
           (socket_events (fst (handle_requests rt plugin running_server s (exchanges net))))"
  by (simp add: start_socket_events [OF assms] handle_requests_traffic)

lemma network_with_fields:
  "socket_fault (network_with xs) = None"
  "bound (network_with xs) = Inr (ascii ''127.0.0.1'', 40001)"
  "accepted (network_with xs) = Inr (ascii ''127.0.0.1'', 50002)"
  "exchanges (network_with xs) = xs"
  by (simp_all add: network_with_def)

theorem listener_closes_at_teardown_witness:
  "socket_fault (network_with [(Received [], None)]) = None \<and>
   bound (network_with [(Received [], None)]) = Inr (ascii ''127.0.0.1'', 40001) \<and>
   accepted (network_with [(Received [], None)]) = Inr (ascii ''127.0.0.1'', 50002) \<and>
   socket_events (fst (start python (NotifyPlugin python) new_server notify_init
                         (network_with [(Received [], None)]))) =
     [Listen, Accept, Recv [], CloseClient, CloseListener]"
proof -
  have r: "running running_server" by (simp add: running_server_def)
  have b: "handle_one python (NotifyPlugin python) notify_init (Received [], None) =
             Break [Recv [], Stderr (rpc_debug [Lit msg_conn_closed])] notify_init"
    by (simp add: handle_one_def)
  have h: "handle_requests python (NotifyPlugin python) running_server notify_init
             [(Received [], None)] =
           ([Recv [], Stderr (rpc_debug [Lit msg_conn_closed])], notify_init, True)"
    by (rule handle_requests_break [OF r b])
  from listener_closes_at_teardown
         [where plugin = "NotifyPlugin python" and s = notify_init and rt = python,
          OF network_with_fields(1-3), of "[(Received [], None)]",
          unfolded network_with_fields(4) h]
  show ?thesis
    by (simp add: network_with_fields socket_events_def del: handle_requests.simps)
qed

text \<open>
  Claim C8 as stated fails: the connection acceptor does not close the listening
  endpoint. In a session of one request followed by the peer's close, the listening
  socket is still open while the request is read and answered; \<open>CloseListener\<close> is the
  last call on the sockets, after the session.
\<close>

theorem listener_open_during_session_counterexample:
  "socket_events (fst (start python (NotifyPlugin python) new_server notify_init
      (network_with [(Received (request_text ''Bogus'' ''[]'' ''2''), None),
                     (Received [], None)]))) =
     [Listen, Accept,
      Recv (request_text ''Bogus'' ''[]'' ''2''),
      Send (response (PInt 2) PNone (PStr (msg_method @ ascii ''Bogus'' @ msg_not_exist))),
      Recv [],
      CloseClient, CloseListener]"
proof -
  let ?kvs = "[(ascii ''method'', PStr (ascii ''Bogus'')), (ascii ''params'', PList []),
               (ascii ''id'', PInt 2)]"
  have r: "running running_server" by (simp add: running_server_def)
  have p: "parse_request python (request_text ''Bogus'' ''[]'' ''2'') = Inr (PDict ?kvs)"
    by (simp add: parse_known request_value_def)
  have d: "request_text ''Bogus'' ''[]'' ''2'' \<noteq> []" by (rule request_text_nonempty)
  have c: "call_method python (NotifyPlugin python) (dict_get ?kvs (ascii ''method'') (PStr []))
             (dict_get ?kvs (ascii ''params'') (PList [])) notify_init =
           ((PNone, PStr (msg_method @ ascii ''Bogus'' @ msg_not_exist)), notify_init, [])"
    by (simp add: request_value_get call_method_unresolved split_last_plain notify_lookup)
  note a = handle_one_request [OF d p c]
  have b: "handle_one python (NotifyPlugin python) notify_init (Received [], None) =
             Break [Recv [], Stderr (rpc_debug [Lit msg_conn_closed])] notify_init"
    by (simp add: handle_one_def)
  have h2: "handle_requests python (NotifyPlugin python) running_server notify_init
              [(Received [], None)] =
            ([Recv [], Stderr (rpc_debug [Lit msg_conn_closed])], notify_init, True)"
    by (rule handle_requests_break [OF r b])
  have h: "socket_events (fst (handle_requests python (NotifyPlugin python) running_server
              notify_init
              [(Received (request_text ''Bogus'' ''[]'' ''2''), None), (Received [], None)])) =
           [Recv (request_text ''Bogus'' ''[]'' ''2''),
            Send (response (PInt 2) PNone (PStr (msg_method @ ascii ''Bogus'' @ msg_not_exist))),
            Recv []] \<and>
           snd (snd (handle_requests python (NotifyPlugin python) running_server notify_init
              [(Received (request_text ''Bogus'' ''[]'' ''2''), None), (Received [], None)]))"
    unfolding handle_requests_continue [OF r a] h2
    by (simp add: socket_events_def request_value_get)
  from start_socket_events
         [where plugin = "NotifyPlugin python" and s = notify_init and rt = python,
          OF network_with_fields(1-3),
          of "[(Received (request_text ''Bogus'' ''[]'' ''2''), None), (Received [], None)]",
          unfolded network_with_fields(4)]
       h
  show ?thesis
    by (simp del: handle_requests.simps)
qed

section \<open>The handshake line\<close>




section \<open>The version test is a substring test\<close>





end
